theory Spec2Isabelle
  imports Main "HOL-Library.AList"
begin

section \<open>Text\<close>

text \<open>
  Python's \<open>str\<close> is a sequence of Unicode code points: \<open>len\<close>, slicing, \<open>in\<close> and
  \<open>split\<close> all count code points. A text is therefore a list of code points, and the
  Japanese literals of \<open>app.py\<close> are written out as such lists (hexadecimal). ASCII
  literals (dictionary keys, provider names) are written as HOL strings and converted
  by \<open>u\<close>.
\<close>

type_synonym ustr = "int list"

definition u :: "string \<Rightarrow> ustr" where
  "u s = map of_char s"

text \<open>\<open>s.startswith(p)\<close>.\<close>

fun startswith :: "'a list \<Rightarrow> 'a list \<Rightarrow> bool" where
  "startswith s [] = True"
| "startswith [] (p # ps) = False"
| "startswith (c # cs) (p # ps) = (c = p \<and> startswith cs ps)"

text \<open>\<open>sub in s\<close> on strings: \<open>sub\<close> occurs in \<open>s\<close> as a contiguous run.\<close>

fun py_in :: "'a list \<Rightarrow> 'a list \<Rightarrow> bool" where
  "py_in sub [] = (sub = [])"
| "py_in sub (c # cs) = (startswith (c # cs) sub \<or> py_in sub cs)"

text \<open>\<open>s.split(sep)\<close> for a separator of one code point.\<close>

fun split_on :: "'a \<Rightarrow> 'a list \<Rightarrow> 'a list list" where
  "split_on sep [] = [[]]"
| "split_on sep (c # cs) =
     (if c = sep then [] # split_on sep cs
      else (case split_on sep cs of
              [] \<Rightarrow> [[c]]
            | w # ws \<Rightarrow> (c # w) # ws))"

text \<open>
  \<open>str.isspace\<close> on one code point: the code points Python treats as whitespace, which
  \<open>s.strip()\<close> removes from both ends.
\<close>

definition py_isspace :: "int \<Rightarrow> bool" where
  "py_isspace c =
     ((0x9 \<le> c \<and> c \<le> 0xD) \<or> (0x1C \<le> c \<and> c \<le> 0x20) \<or> c = 0x85 \<or> c = 0xA0
      \<or> c = 0x1680 \<or> (0x2000 \<le> c \<and> c \<le> 0x200A) \<or> c = 0x2028 \<or> c = 0x2029
      \<or> c = 0x202F \<or> c = 0x205F \<or> c = 0x3000)"

definition strip :: "ustr \<Rightarrow> ustr" where
  "strip s = rev (dropWhile py_isspace (rev (dropWhile py_isspace s)))"

section \<open>QualityHeuristic: \<open>analyze_synopsis_quality\<close>\<close>

text \<open>The nine connector words of \<open>engaging_words\<close> (line 150), in source order.\<close>

definition engaging_words :: "ustr list" where
  "engaging_words =
     [[0x3057, 0x304B, 0x3057],
      [0x3060, 0x304C],
      [0x7A81, 0x7136],
      [0x3064, 0x3044, 0x306B],
      [0x679C, 0x305F, 0x3057, 0x3066],
      [0x306A, 0x305C, 0x306A, 0x3089],
      [0x305D, 0x3057, 0x3066],
      [0x3082, 0x3057],
      [0x9A5A, 0x304F, 0x3079, 0x304D, 0x3053, 0x3068, 0x306B]]"

text \<open>The four genre keywords of line 156, in source order.\<close>

definition genre_keywords :: "ustr list" where
  "genre_keywords =
     [[0x9B54, 0x6CD5],
      [0x7570, 0x4E16, 0x754C],
      [0x30C9, 0x30E9, 0x30B4, 0x30F3],
      [0x5192, 0x967A]]"

text \<open>
  Line 154 tests for the ASCII question mark U+003F and for the full-width exclamation
  mark U+FF01. Line 158 splits at the ideographic full stop U+3002.
\<close>

definition question_mark :: ustr where
  "question_mark = [0x3F]"

definition fullwidth_exclamation :: ustr where
  "fullwidth_exclamation = [0xFF01]"

definition ideographic_full_stop :: int where
  "ideographic_full_stop = 0x3002"

text \<open>
  The loop of lines 151-152: \<open>for word in engaging_words: if word in synopsis: score += 5\<close>,
  run from the score reached so far.
\<close>

fun engaging_loop :: "ustr list \<Rightarrow> ustr \<Rightarrow> int \<Rightarrow> int" where
  "engaging_loop [] synopsis score = score"
| "engaging_loop (word # ws) synopsis score =
     engaging_loop ws synopsis (if py_in word synopsis then score + 5 else score)"

text \<open>Lines 158-159: the stripped, non-empty pieces between full stops.\<close>

definition sentences_of :: "ustr \<Rightarrow> ustr list" where
  "sentences_of synopsis =
     map strip (filter (\<lambda>s. strip s \<noteq> []) (split_on ideographic_full_stop synopsis))"

definition analyze_synopsis_quality :: "ustr \<Rightarrow> int" where
  "analyze_synopsis_quality synopsis =
     (let score = 0;
          score = (if 200 \<le> length synopsis \<and> length synopsis \<le> 400 then score + 30
                   else if 150 \<le> length synopsis \<and> length synopsis \<le> 500 then score + 20
                   else score + 10);
          score = engaging_loop engaging_words synopsis score;
          score = (if py_in question_mark synopsis \<or> py_in fullwidth_exclamation synopsis
                   then score + 10 else score);
          score = (if list_ex (\<lambda>keyword. py_in keyword synopsis) genre_keywords
                   then score + 15 else score);
          sentences = sentences_of synopsis;
          score = (if 3 \<le> length sentences \<and> length sentences \<le> 6 then score + 20 else score)
      in min score 100)"

subsection \<open>What the heuristic computes\<close>

lemma py_in_iff: "py_in sub s \<longleftrightarrow> (\<exists>a b. s = a @ sub @ b)"
proof (induction s)
  case Nil
  show ?case by auto
next
  case (Cons c cs)
  have sw: "\<And>(s::'a list) p. startswith s p \<longleftrightarrow> (\<exists>b. s = p @ b)"
  proof -
    fix s p :: "'a list"
    show "startswith s p \<longleftrightarrow> (\<exists>b. s = p @ b)"
      by (induction s p rule: startswith.induct) auto
  qed
  show ?case
  proof
    assume "py_in sub (c # cs)"
    then consider "startswith (c # cs) sub" | "py_in sub cs" by auto
    then show "\<exists>a b. c # cs = a @ sub @ b"
    proof cases
      case 1
      then obtain b where "c # cs = sub @ b" using sw by blast
      then have "c # cs = [] @ sub @ b" by simp
      then show ?thesis by blast
    next
      case 2
      then obtain a b where "cs = a @ sub @ b" using Cons.IH by blast
      then have "c # cs = (c # a) @ sub @ b" by simp
      then show ?thesis by blast
    qed
  next
    assume "\<exists>a b. c # cs = a @ sub @ b"
    then obtain a b where ab: "c # cs = a @ sub @ b" by blast
    show "py_in sub (c # cs)"
    proof (cases a)
      case Nil
      with ab have "startswith (c # cs) sub" using sw by auto
      then show ?thesis by simp
    next
      case (Cons x a')
      with ab have "cs = a' @ sub @ b" by simp
      then have "py_in sub cs" using Cons.IH by blast
      then show ?thesis by simp
    qed
  qed
qed

lemma engaging_loop_count:
  "engaging_loop ws synopsis score =
     score + 5 * int (length (filter (\<lambda>word. py_in word synopsis) ws))"
  by (induction ws arbitrary: score) auto

text \<open>
  Following the spec's words (section 4.5, "+5 for each occurrence ... a word appearing
  multiple times counts once per occurrence"): the number of positions of \<open>s\<close> at which
  \<open>sub\<close> starts, and five points for each, summed over the nine words.
\<close>

fun occurrences :: "'a list \<Rightarrow> 'a list \<Rightarrow> nat" where
  "occurrences sub [] = (if sub = [] then 1 else 0)"
| "occurrences sub (c # cs) = (if startswith (c # cs) sub then 1 else 0) + occurrences sub cs"

definition spec_connector_points :: "ustr \<Rightarrow> int" where
  "spec_connector_points synopsis =
     5 * int (sum_list (map (\<lambda>word. occurrences word synopsis) engaging_words))"

text \<open>The first connector word twice in a row, as a six-character synopsis.\<close>

definition shikashi_twice :: ustr where
  "shikashi_twice = [0x3057, 0x304B, 0x3057, 0x3057, 0x304B, 0x3057]"

text \<open>
  A synopsis as the example of section 8 describes it: 300 characters in four sentences,
  each closed by U+3002; the first begins with the connector word U+3057 U+304B U+3057,
  the second with the genre word U+30C9 U+30E9 U+30B4 U+30F3, the third ends in the
  full-width question mark U+FF1F; everything else is the filler U+3042.
\<close>

definition filler :: int where
  "filler = 0x3042"

definition example_synopsis :: ustr where
  "example_synopsis =
     [0x3057, 0x304B, 0x3057] @ replicate 71 filler @ [0x3002]
     @ [0x30C9, 0x30E9, 0x30B4, 0x30F3] @ replicate 70 filler @ [0x3002]
     @ replicate 73 filler @ [0xFF1F, 0x3002]
     @ replicate 74 filler @ [0x3002]"

lemma example_length: "length example_synopsis = 300"
  by (simp add: example_synopsis_def)

lemma example_connectors:
  "filter (\<lambda>word. py_in word example_synopsis) engaging_words = [[0x3057, 0x304B, 0x3057]]"
  by code_simp

lemma example_connector_once: "occurrences [0x3057, 0x304B, 0x3057] example_synopsis = 1"
  by code_simp

lemma example_punctuation:
  "py_in [0xFF1F] example_synopsis \<and> \<not> py_in question_mark example_synopsis
   \<and> \<not> py_in fullwidth_exclamation example_synopsis"
  by code_simp

lemma example_genre:
  "filter (\<lambda>keyword. py_in keyword example_synopsis) genre_keywords
     = [[0x30C9, 0x30E9, 0x30B4, 0x30F3]]"
  by code_simp

lemma example_sentences: "length (sentences_of example_synopsis) = 4"
  by code_simp

text \<open>
  C2. The example of section 8: a synopsis of exactly 300 characters with the connector
  word once, the full-width question mark U+FF1F, the genre word and four sentences, and
  no other trigger. The spec's sum is 80; \<open>analyze_synopsis_quality\<close> returns 70, since
  line 154 looks for the ASCII question mark U+003F (and the full-width exclamation
  mark), which the synopsis does not contain.
\<close>

theorem example_synopsis_scores_70:
  "length example_synopsis = 300
   \<and> occurrences [0x3057, 0x304B, 0x3057] example_synopsis = 1
   \<and> filter (\<lambda>word. py_in word example_synopsis) engaging_words = [[0x3057, 0x304B, 0x3057]]
   \<and> py_in [0xFF1F] example_synopsis
   \<and> filter (\<lambda>keyword. py_in keyword example_synopsis) genre_keywords
         = [[0x30C9, 0x30E9, 0x30B4, 0x30F3]]
   \<and> length (sentences_of example_synopsis) = 4
   \<and> analyze_synopsis_quality example_synopsis = 70"
proof -
  have loop: "engaging_loop engaging_words example_synopsis 30 = 35"
    by (simp add: engaging_loop_count example_connectors)
  have genre: "list_ex (\<lambda>keyword. py_in keyword example_synopsis) genre_keywords"
  proof -
    have "filter (\<lambda>keyword. py_in keyword example_synopsis) genre_keywords \<noteq> []"
      by (simp add: example_genre)
    then show ?thesis by (simp add: filter_empty_conv list_ex_iff)
  qed
  have "analyze_synopsis_quality example_synopsis = 70"
    by (simp add: analyze_synopsis_quality_def Let_def example_length loop
        example_punctuation genre example_sentences)
  then show ?thesis
    using example_length example_connector_once example_connectors example_punctuation
      example_genre example_sentences by simp
qed

text \<open>
  C3 as the claim states it fails: the connector word that occurs twice earns 5 points,
  not 10.
\<close>

theorem connector_twice_counts_once:
  "occurrences [0x3057, 0x304B, 0x3057] shikashi_twice = 2
   \<and> spec_connector_points shikashi_twice = 10
   \<and> engaging_loop engaging_words shikashi_twice 0 = 5
   \<and> engaging_loop engaging_words shikashi_twice 0 \<noteq> spec_connector_points shikashi_twice
   \<and> analyze_synopsis_quality shikashi_twice = 15"
  by code_simp

text \<open>
  C3, amended. The connector contribution is 5 times the number of the nine connector
  words that occur in the synopsis at least once, whatever the score before the loop; a
  word occurring several times counts once.
\<close>

theorem connector_points_per_distinct_word:
  "engaging_loop engaging_words synopsis score =
     score + 5 * int (length (filter (\<lambda>word. py_in word synopsis) engaging_words))"
  by (rule engaging_loop_count)

section \<open>TokenEstimator: \<open>count_tokens\<close>\<close>

text \<open>
  \<open>re.findall(r'\b\w+\b', text)\<close> returns the maximal runs of word characters, one match
  per run. Which code points \<open>\w\<close> matches is a table of the \<open>re\<close> module, not of this
  repository: it is the parameter \<open>word_char\<close>. The flag says whether the previous
  character was a word character.
\<close>

fun count_word_runs :: "(int \<Rightarrow> bool) \<Rightarrow> bool \<Rightarrow> ustr \<Rightarrow> nat" where
  "count_word_runs word_char in_word [] = 0"
| "count_word_runs word_char in_word (c # cs) =
     (if word_char c
      then (if in_word then 0 else 1) + count_word_runs word_char True cs
      else count_word_runs word_char False cs)"

text \<open>
  Line 109 computes \<open>int(japanese_chars * 1.5 + english_words * 1.3)\<close> in double
  precision. The exact value is \<open>(15 j + 13 w) / 10\<close>. Where that is an integer, \<open>w\<close> is a
  multiple of 5, so \<open>w * 1.3\<close> is a multiple of one half and the doubles compute it
  exactly; elsewhere it is at least one tenth away from every integer, far more than
  the rounding error of texts of any feasible length. So the truncation is the integer
  quotient below.
\<close>

definition count_tokens :: "(int \<Rightarrow> bool) \<Rightarrow> ustr \<Rightarrow> int" where
  "count_tokens word_char text =
     (let japanese_chars = int (length (filter (\<lambda>c. c > 127) text));
          english_words = int (count_word_runs word_char False text);
          estimated_tokens = (15 * japanese_chars + 13 * english_words) div 10;
          estimated_tokens = (if length text > 500
                              then estimated_tokens + int (length text) div 10
                              else estimated_tokens)
      in max 1 estimated_tokens)"

lemma count_word_runs_append:
  "count_word_runs word_char in_word xs
     \<le> count_word_runs word_char in_word (xs @ more)"
  by (induction xs arbitrary: in_word) auto

text \<open>
  C9. The estimate is at least 1 for every text, and appending characters (of the same
  class or of any other) to a text never decreases it.
\<close>

theorem count_tokens_positive_and_monotone:
  "1 \<le> count_tokens word_char text
   \<and> count_tokens word_char text \<le> count_tokens word_char (text @ more)"
proof
  show "1 \<le> count_tokens word_char text"
    by (simp add: count_tokens_def Let_def)
next
  let ?j = "\<lambda>t. int (length (filter (\<lambda>c. c > 127) t))"
  let ?w = "\<lambda>t. int (count_word_runs word_char False t)"
  let ?base = "\<lambda>t. (15 * ?j t + 13 * ?w t) div 10"
  have j: "?j text \<le> ?j (text @ more)" by simp
  have w: "?w text \<le> ?w (text @ more)"
    using count_word_runs_append [of word_char False "text" more] by simp
  have base: "?base text \<le> ?base (text @ more)"
    using j w by (intro zdiv_mono1) auto
  have base0: "0 \<le> ?base text"
    by (intro pos_imp_zdiv_nonneg_iff [THEN iffD2]) auto
  have len: "int (length text) div 10 \<le> int (length (text @ more)) div 10"
    by (intro zdiv_mono1) auto
  have len0: "0 \<le> int (length (text @ more)) div 10"
    by (intro pos_imp_zdiv_nonneg_iff [THEN iffD2]) auto
  show "count_tokens word_char text \<le> count_tokens word_char (text @ more)"
    unfolding count_tokens_def Let_def using base base0 len len0
    by (auto simp: max_def)
qed

section \<open>UsageLedger\<close>

text \<open>One entry of \<open>request_history\<close> (lines 123-129).\<close>

record usage_record =
  timestamp :: ustr
  model :: ustr
  prompt_tokens :: int
  response_tokens :: int
  total_tokens :: int

text \<open>The dictionary \<open>st.session_state.api_usage\<close> (lines 394-399).\<close>

record api_usage =
  daily_requests :: int
  daily_tokens_used :: int
  last_reset_date :: ustr
  total_requests :: int
  total_tokens_used :: int
  request_history :: "usage_record list"

text \<open>The ledger a new session starts with; \<open>today\<close> is the date read at that moment.\<close>

definition initial_api_usage :: "ustr \<Rightarrow> api_usage" where
  "initial_api_usage today =
     \<lparr>daily_requests = 0, daily_tokens_used = 0, last_reset_date = today,
      total_requests = 0, total_tokens_used = 0, request_history = []\<rparr>"

text \<open>\<open>xs[-n:]\<close> for a positive \<open>n\<close>: the last \<open>n\<close> elements, or all of a shorter list.\<close>

definition py_last :: "nat \<Rightarrow> 'a list \<Rightarrow> 'a list" where
  "py_last n xs = drop (length xs - n) xs"

text \<open>
  \<open>log_api_usage\<close> (lines 114-132). \<open>now\<close> is what \<open>datetime.now().isoformat()\<close> returns
  during the call. The ledger is passed in and returned.
\<close>

definition log_api_usage ::
  "ustr \<Rightarrow> ustr \<Rightarrow> ustr \<Rightarrow> ustr \<Rightarrow> int \<Rightarrow> int \<Rightarrow> api_usage \<Rightarrow> api_usage" where
  "log_api_usage now prompt response model_name p_tokens r_tokens usage =
     (let total = p_tokens + r_tokens;
          usage = usage\<lparr>daily_requests := daily_requests usage + 1\<rparr>;
          usage = usage\<lparr>daily_tokens_used := daily_tokens_used usage + total\<rparr>;
          usage = usage\<lparr>total_requests := total_requests usage + 1\<rparr>;
          usage = usage\<lparr>total_tokens_used := total_tokens_used usage + total\<rparr>;
          usage = usage\<lparr>request_history := request_history usage @
                    [\<lparr>timestamp = now, model = model_name, prompt_tokens = p_tokens,
                      response_tokens = r_tokens, total_tokens = total\<rparr>]\<rparr>
      in if length (request_history usage) > 100
         then usage\<lparr>request_history := py_last 100 (request_history usage)\<rparr>
         else usage)"

text \<open>The arguments of one call of \<open>log_api_usage\<close>, with the clock reading of that call.\<close>

record log_call =
  call_now :: ustr
  call_prompt :: ustr
  call_response :: ustr
  call_model_name :: ustr
  call_prompt_tokens :: int
  call_response_tokens :: int

definition log_call_on :: "log_call \<Rightarrow> api_usage \<Rightarrow> api_usage" where
  "log_call_on c usage =
     log_api_usage (call_now c) (call_prompt c) (call_response c) (call_model_name c)
       (call_prompt_tokens c) (call_response_tokens c) usage"

text \<open>The history entry a call appends.\<close>

definition entry_of :: "log_call \<Rightarrow> usage_record" where
  "entry_of c =
     \<lparr>timestamp = call_now c, model = call_model_name c,
      prompt_tokens = call_prompt_tokens c, response_tokens = call_response_tokens c,
      total_tokens = call_prompt_tokens c + call_response_tokens c\<rparr>"

definition tokens_of :: "log_call \<Rightarrow> int" where
  "tokens_of c = call_prompt_tokens c + call_response_tokens c"

text \<open>
  The daily reset of lines 410-412, run at module level on every script run;
  \<open>current_date\<close> is \<open>datetime.now().date().isoformat()\<close>.
\<close>

definition daily_reset :: "ustr \<Rightarrow> api_usage \<Rightarrow> api_usage" where
  "daily_reset current_date usage =
     (if last_reset_date usage \<noteq> current_date
      then usage\<lparr>daily_requests := 0, daily_tokens_used := 0,
                 last_reset_date := current_date\<rparr>
      else usage)"

subsection \<open>Recording calls\<close>

lemma py_last_py_last_append:
  "py_last n (py_last n xs @ ys) = py_last n (xs @ ys)"
  by (cases "n \<le> length xs") (simp_all add: py_last_def add.commute)

lemma log_call_on_counters:
  "daily_requests (log_call_on c usage) = daily_requests usage + 1"
  "total_requests (log_call_on c usage) = total_requests usage + 1"
  "daily_tokens_used (log_call_on c usage) = daily_tokens_used usage + tokens_of c"
  "total_tokens_used (log_call_on c usage) = total_tokens_used usage + tokens_of c"
  "last_reset_date (log_call_on c usage) = last_reset_date usage"
  by (simp_all add: log_call_on_def log_api_usage_def Let_def tokens_of_def)

lemma log_call_on_history:
  "request_history (log_call_on c usage) = py_last 100 (request_history usage @ [entry_of c])"
  by (simp add: log_call_on_def log_api_usage_def Let_def entry_of_def py_last_def)

lemma fold_log_counters:
  "daily_requests (fold log_call_on calls usage) = daily_requests usage + int (length calls)"
  "total_requests (fold log_call_on calls usage) = total_requests usage + int (length calls)"
  "daily_tokens_used (fold log_call_on calls usage)
     = daily_tokens_used usage + sum_list (map tokens_of calls)"
  "total_tokens_used (fold log_call_on calls usage)
     = total_tokens_used usage + sum_list (map tokens_of calls)"
  by (induction calls arbitrary: usage) (simp_all add: log_call_on_counters)

lemma fold_log_history:
  "calls \<noteq> [] \<Longrightarrow>
   request_history (fold log_call_on calls usage)
     = py_last 100 (request_history usage @ map entry_of calls)"
proof (induction calls arbitrary: usage)
  case Nil
  then show ?case by simp
next
  case (Cons c cs)
  show ?case
  proof (cases cs)
    case Nil
    then show ?thesis by (simp add: log_call_on_history)
  next
    case (Cons d ds)
    then have "cs \<noteq> []" by simp
    from Cons.IH [OF this, of "log_call_on c usage"]
    show ?thesis
      by (simp add: log_call_on_history py_last_py_last_append)
  qed
qed

text \<open>
  C6. From the ledger of a new session, recording \<open>N\<close> calls leaves both request
  counters at \<open>N\<close>, both token counters at the sum of the recorded prompt and response
  tokens, and the history at the last \<open>min N 100\<close> entries, in the order recorded.
\<close>

theorem record_n_calls:
  "total_requests (fold log_call_on calls (initial_api_usage today)) = int (length calls)
   \<and> daily_requests (fold log_call_on calls (initial_api_usage today)) = int (length calls)
   \<and> daily_tokens_used (fold log_call_on calls (initial_api_usage today))
        = sum_list (map tokens_of calls)
   \<and> total_tokens_used (fold log_call_on calls (initial_api_usage today))
        = sum_list (map tokens_of calls)
   \<and> request_history (fold log_call_on calls (initial_api_usage today))
        = drop (length calls - 100) (map entry_of calls)
   \<and> length (request_history (fold log_call_on calls (initial_api_usage today)))
        = min (length calls) 100"
proof -
  have h: "request_history (fold log_call_on calls (initial_api_usage today))
             = drop (length calls - 100) (map entry_of calls)"
  proof (cases calls)
    case Nil
    then show ?thesis by (simp add: initial_api_usage_def)
  next
    case (Cons c cs)
    then have "calls \<noteq> []" by simp
    from fold_log_history [OF this, of "initial_api_usage today"]
    show ?thesis by (simp add: initial_api_usage_def py_last_def)
  qed
  have l: "length (drop (length calls - 100) (map entry_of calls)) = min (length calls) 100"
    by simp
  show ?thesis
    using h l by (simp add: fold_log_counters initial_api_usage_def)
qed

subsection \<open>The daily reset\<close>

text \<open>
  C7. A second reset with the same date changes nothing. A reset with a date other than
  the stored one zeroes both daily counters and stores the date. No reset touches the
  lifetime counters or the history.
\<close>

theorem daily_reset_idempotent_and_daily_only:
  "daily_reset d (daily_reset d usage) = daily_reset d usage
   \<and> (last_reset_date usage \<noteq> d \<longrightarrow>
        daily_requests (daily_reset d usage) = 0
        \<and> daily_tokens_used (daily_reset d usage) = 0
        \<and> last_reset_date (daily_reset d usage) = d)
   \<and> total_requests (daily_reset d usage) = total_requests usage
   \<and> total_tokens_used (daily_reset d usage) = total_tokens_used usage
   \<and> request_history (daily_reset d usage) = request_history usage"
  by (simp add: daily_reset_def)

text \<open>
  The theorem at a ledger with 3 requests and 420 tokens today, last reset on
  2026-01-01, and the date 2026-01-02.
\<close>

definition ledger_of_yesterday :: api_usage where
  "ledger_of_yesterday =
     \<lparr>daily_requests = 3, daily_tokens_used = 420, last_reset_date = u ''2026-01-01'',
      total_requests = 10, total_tokens_used = 2000, request_history = []\<rparr>"

theorem daily_reset_witness:
  "daily_reset (u ''2026-01-02'') (daily_reset (u ''2026-01-02'') ledger_of_yesterday)
     = daily_reset (u ''2026-01-02'') ledger_of_yesterday
   \<and> last_reset_date ledger_of_yesterday \<noteq> u ''2026-01-02''
   \<and> daily_requests ledger_of_yesterday = 3
   \<and> daily_requests (daily_reset (u ''2026-01-02'') ledger_of_yesterday) = 0
   \<and> daily_tokens_used (daily_reset (u ''2026-01-02'') ledger_of_yesterday) = 0
   \<and> last_reset_date (daily_reset (u ''2026-01-02'') ledger_of_yesterday) = u ''2026-01-02''
   \<and> total_requests (daily_reset (u ''2026-01-02'') ledger_of_yesterday) = 10
   \<and> total_tokens_used (daily_reset (u ''2026-01-02'') ledger_of_yesterday) = 2000"
proof -
  have ne: "last_reset_date ledger_of_yesterday \<noteq> u ''2026-01-02''"
    by (simp add: ledger_of_yesterday_def u_def)
  show ?thesis
    using ne daily_reset_idempotent_and_daily_only [of "u ''2026-01-02''" ledger_of_yesterday]
    by (simp add: ledger_of_yesterday_def)
qed

section \<open>Python values\<close>

text \<open>
  The objects held in \<open>st.session_state\<close> and produced by \<open>json.load\<close>: strings,
  integers, booleans, \<open>None\<close>, lists, and dictionaries with string keys. A dictionary is
  an association list in insertion order, which is the order Python iterates in.
\<close>

datatype pyval =
    PStr ustr
  | PInt int
  | PBool bool
  | PNone
  | PList "pyval list"
  | PDict "(ustr \<times> pyval) list"

type_synonym pydict = "(ustr \<times> pyval) list"

text \<open>The exceptions the modelled code can raise.\<close>

datatype py_error =
    NameError ustr
  | AttributeError
  | TypeError
  | KeyError
  | JSONDecodeError

text \<open>Truth value of an object, as \<open>if x\<close> and \<open>not x\<close> take it.\<close>

fun truthy :: "pyval \<Rightarrow> bool" where
  "truthy (PStr s) = (s \<noteq> [])"
| "truthy (PInt n) = (n \<noteq> 0)"
| "truthy (PBool b) = b"
| "truthy PNone = False"
| "truthy (PList xs) = (xs \<noteq> [])"
| "truthy (PDict d) = (d \<noteq> [])"

text \<open>\<open>d.get(k)\<close> is \<open>None\<close> for a missing key, and \<open>None\<close> is false.\<close>

fun truthy_opt :: "pyval option \<Rightarrow> bool" where
  "truthy_opt None = False"
| "truthy_opt (Some v) = truthy v"

section \<open>ProviderGateway: \<open>call_generative_api\<close>\<close>

text \<open>The literals of lines 181, 193, 206, 219 and 233.\<close>

definition gemini_key_missing :: ustr where
  "gemini_key_missing =
     [0x30A8, 0x30E9, 0x30FC]
     @ u '': Gemini API''
     @ [0x30AD, 0x30FC, 0x304C, 0x8A2D, 0x5B9A, 0x3055, 0x308C, 0x3066, 0x3044, 0x307E]
     @ [0x305B, 0x3093, 0x3002]"

definition openai_key_missing :: ustr where
  "openai_key_missing =
     [0x30A8, 0x30E9, 0x30FC]
     @ u '': OpenAI API''
     @ [0x30AD, 0x30FC, 0x304C, 0x8A2D, 0x5B9A, 0x3055, 0x308C, 0x3066, 0x3044, 0x307E]
     @ [0x305B, 0x3093, 0x3002]"

definition claude_key_missing :: ustr where
  "claude_key_missing =
     [0x30A8, 0x30E9, 0x30FC]
     @ u '': Anthropic (Claude) API''
     @ [0x30AD, 0x30FC, 0x304C, 0x8A2D, 0x5B9A, 0x3055, 0x308C, 0x3066, 0x3044, 0x307E]
     @ [0x305B, 0x3093, 0x3002]"

definition unknown_model_selected :: ustr where
  "unknown_model_selected =
     [0x30A8, 0x30E9, 0x30FC]
     @ u '': ''
     @ [0x4E0D, 0x660E, 0x306A]
     @ u ''AI''
     @ [0x30E2, 0x30C7, 0x30EB, 0x304C, 0x9078, 0x629E, 0x3055, 0x308C, 0x3066, 0x3044]
     @ [0x307E, 0x3059, 0x3002]"

definition api_error_prefix :: ustr where
  "api_error_prefix =
     u ''API''
     @ [0x547C, 0x3073, 0x51FA, 0x3057, 0x4E2D, 0x306B, 0x30A8, 0x30E9, 0x30FC, 0x304C]
     @ [0x767A, 0x751F, 0x3057, 0x307E, 0x3057, 0x305F]
     @ u '': ''"

definition get_model_name :: "ustr \<Rightarrow> ustr" where
  "get_model_name provider =
     (if provider = u ''Gemini'' then u ''gemini-2.0-flash''
      else if provider = u ''OpenAI'' then u ''gpt-4o-mini''
      else if provider = u ''Claude'' then u ''claude-3-haiku-20240307''
      else [])"

text \<open>The dictionary \<open>call_generative_api\<close> returns.\<close>

record api_result =
  result_text :: ustr
  result_prompt_tokens :: int
  result_response_tokens :: int

text \<open>
  The dictionary stored in \<open>st.session_state.current_call_token_info\<close>; the key
  \<open>error\<close> is present only after a failed call.
\<close>

record token_info =
  info_model :: ustr
  info_prompt_tokens :: int
  info_response_tokens :: int
  info_total_tokens :: int
  info_error :: "ustr option"

text \<open>
  What a provider's client hands back inside the \<open>try\<close> block: the response text with
  the usage counts the response reports (the Gemini branch does not read them), or an
  exception, of which the code keeps \<open>str(e)\<close>.
\<close>

record provider_reply =
  reply_text :: ustr
  reply_prompt_tokens :: int
  reply_response_tokens :: int

text \<open>A request handed to a provider's client: provider, model, key and prompt.\<close>

record outbound_call =
  sent_provider :: ustr
  sent_model :: ustr
  sent_api_key :: "pyval option"
  sent_prompt :: ustr

text \<open>
  The parts of \<open>st.session_state\<close> the gateway reads and writes. \<open>current_call_token_info\<close>
  starts as the empty dictionary, here \<open>None\<close>. \<open>outbound_calls\<close> is not a variable of
  the program: it lists the requests handed to a provider's client so far, so that a call
  that sends nothing can be told from one that does.
\<close>

record session_state =
  selected_model_provider :: ustr
  user_api_keys :: pydict
  api_usage :: api_usage
  current_call_token_info :: "token_info option"
  outbound_calls :: "outbound_call list"

text \<open>
  What the program does not contain: the \<open>\w\<close> table of the \<open>re\<close> module, the three
  providers (a request is answered by a reply or by an exception), and the clock.
\<close>

record environment =
  word_char :: "int \<Rightarrow> bool"
  provider_answer :: "outbound_call \<Rightarrow> ustr + provider_reply"
  clock :: ustr

text \<open>Lines 221-230: the call is logged, the summary stored, the text returned.\<close>

definition on_success ::
  "environment \<Rightarrow> ustr \<Rightarrow> ustr \<Rightarrow> ustr \<Rightarrow> int \<Rightarrow> int \<Rightarrow> session_state
     \<Rightarrow> api_result \<times> session_state" where
  "on_success env prompt model_name response_text p_tokens r_tokens st =
     (let st = st\<lparr>api_usage :=
                 log_api_usage (clock env) prompt response_text model_name p_tokens r_tokens
                   (api_usage st)\<rparr>;
          st = st\<lparr>current_call_token_info :=
                 Some \<lparr>info_model = model_name, info_prompt_tokens = p_tokens,
                       info_response_tokens = r_tokens,
                       info_total_tokens = p_tokens + r_tokens, info_error = None\<rparr>\<rparr>
      in (\<lparr>result_text = response_text, result_prompt_tokens = p_tokens,
           result_response_tokens = r_tokens\<rparr>, st))"

text \<open>Lines 232-241: the handler of \<open>except Exception as e\<close>; \<open>e\<close> is \<open>str(e)\<close>.\<close>

definition on_exception :: "ustr \<Rightarrow> ustr \<Rightarrow> session_state \<Rightarrow> api_result \<times> session_state" where
  "on_exception model_name e st =
     (let error_message = api_error_prefix @ e;
          st = st\<lparr>current_call_token_info :=
                 Some \<lparr>info_model = model_name, info_prompt_tokens = 0,
                       info_response_tokens = 0, info_total_tokens = 0,
                       info_error = Some e\<rparr>\<rparr>
      in (\<lparr>result_text = error_message, result_prompt_tokens = 0,
           result_response_tokens = 0\<rparr>, st))"

text \<open>The early returns of lines 181, 193, 206 and 219: a dictionary, nothing else.\<close>

definition early_return :: "ustr \<Rightarrow> session_state \<Rightarrow> api_result \<times> session_state" where
  "early_return message st =
     (\<lparr>result_text = message, result_prompt_tokens = 0, result_response_tokens = 0\<rparr>, st)"

text \<open>Handing a request to a provider's client.\<close>

definition send ::
  "environment \<Rightarrow> outbound_call \<Rightarrow> session_state \<Rightarrow> (ustr + provider_reply) \<times> session_state" where
  "send env request st =
     (provider_answer env request, st\<lparr>outbound_calls := outbound_calls st @ [request]\<rparr>)"

text \<open>
  \<open>call_generative_api\<close> (lines 166-241). \<open>api_keys\<close> is the whole dictionary
  \<open>st.session_state.user_api_keys\<close>, and the key of each provider is looked up in it
  directly. The Gemini branch estimates both token counts; the other two take them from
  the reply.
\<close>

definition call_generative_api ::
  "environment \<Rightarrow> ustr \<Rightarrow> session_state \<Rightarrow> api_result \<times> session_state" where
  "call_generative_api env prompt st =
     (let model_provider = selected_model_provider st;
          api_keys = user_api_keys st;
          model_name = get_model_name model_provider
      in if model_provider = u ''Gemini'' then
           (let api_key = map_of api_keys (u ''gemini'')
            in if \<not> truthy_opt api_key then early_return gemini_key_missing st
               else
                 (let p_tokens = count_tokens (word_char env) prompt;
                      (answer, st) =
                        send env \<lparr>sent_provider = model_provider, sent_model = model_name,
                                  sent_api_key = api_key, sent_prompt = prompt\<rparr> st
                  in case answer of
                       Inl e \<Rightarrow> on_exception model_name e st
                     | Inr response \<Rightarrow>
                         on_success env prompt model_name (reply_text response) p_tokens
                           (count_tokens (word_char env) (reply_text response)) st))
         else if model_provider = u ''OpenAI'' then
           (let api_key = map_of api_keys (u ''openai'')
            in if \<not> truthy_opt api_key then early_return openai_key_missing st
               else
                 (let (answer, st) =
                        send env \<lparr>sent_provider = model_provider, sent_model = model_name,
                                  sent_api_key = api_key, sent_prompt = prompt\<rparr> st
                  in case answer of
                       Inl e \<Rightarrow> on_exception model_name e st
                     | Inr response \<Rightarrow>
                         on_success env prompt model_name (reply_text response)
                           (reply_prompt_tokens response) (reply_response_tokens response) st))
         else if model_provider = u ''Claude'' then
           (let api_key = map_of api_keys (u ''claude'')
            in if \<not> truthy_opt api_key then early_return claude_key_missing st
               else
                 (let (answer, st) =
                        send env \<lparr>sent_provider = model_provider, sent_model = model_name,
                                  sent_api_key = api_key, sent_prompt = prompt\<rparr> st
                  in case answer of
                       Inl e \<Rightarrow> on_exception model_name e st
                     | Inr response \<Rightarrow>
                         on_success env prompt model_name (reply_text response)
                           (reply_prompt_tokens response) (reply_response_tokens response) st))
         else early_return unknown_model_selected st)"

subsection \<open>Where the keys are stored\<close>

text \<open>
  The sidebar (lines 597-631) keeps the keys of a user in a dictionary of that user's own,
  stored in \<open>st.session_state.user_api_keys\<close> under the user name; \<open>is_api_key_set\<close>
  reads the key of the selected provider from there, and every call of the gateway in
  \<open>main_app_view\<close> stands behind that test.
\<close>

text \<open>
  \<open>s.lower()\<close> on the provider names, which are ASCII (the selectbox of line 590 offers
  \<open>Gemini\<close>, \<open>OpenAI\<close> and \<open>Claude\<close>): the letters A-Z become a-z.
\<close>

definition lower :: "ustr \<Rightarrow> ustr" where
  "lower s = map (\<lambda>c. if 65 \<le> c \<and> c \<le> 90 then c + 32 else c) s"

text \<open>
  \<open>is_api_key_set\<close> (lines 634-637): the key of the selected provider in the dictionary
  stored under the current user. A user without an entry gets the empty dictionary; an
  entry that is not a dictionary has no \<open>get\<close>.
\<close>

definition is_api_key_set :: "ustr \<Rightarrow> session_state \<Rightarrow> py_error + bool" where
  "is_api_key_set current_user st =
     (let provider = lower (selected_model_provider st)
      in case map_of (user_api_keys st) current_user of
           None \<Rightarrow> Inr False
         | Some (PDict keys) \<Rightarrow> Inr (truthy_opt (map_of keys provider))
         | Some _ \<Rightarrow> Inl AttributeError)"

subsection \<open>Concrete sessions\<close>

text \<open>
  An environment for evaluation: \<open>\w\<close> restricted to ASCII letters, digits and the
  underscore, a provider that answers every request with the same text and the usage
  counts 12 and 5, and a fixed clock.
\<close>

definition sample_environment :: environment where
  "sample_environment =
     \<lparr>word_char = (\<lambda>c. (48 \<le> c \<and> c \<le> 57) \<or> (65 \<le> c \<and> c \<le> 90) \<or> c = 95
                        \<or> (97 \<le> c \<and> c \<le> 122)),
      provider_answer =
        (\<lambda>request. Inr \<lparr>reply_text = u ''Once upon a time'', reply_prompt_tokens = 12,
                           reply_response_tokens = 5\<rparr>),
      clock = u ''2026-01-02T10:00:00''\<rparr>"

text \<open>A session as lines 380-401 create it: Gemini selected, no key stored.\<close>

definition fresh_session :: session_state where
  "fresh_session =
     \<lparr>selected_model_provider = u ''Gemini'', user_api_keys = [],
      api_usage = initial_api_usage (u ''2026-01-02''),
      current_call_token_info = None, outbound_calls = []\<rparr>"

text \<open>
  A session after the sidebar (lines 597-631) has stored the keys of the user \<open>alice\<close>:
  \<open>user_api_keys\<close> maps the user name to that user's dictionary of keys.
\<close>

definition session_of_alice :: session_state where
  "session_of_alice =
     \<lparr>selected_model_provider = u ''Gemini'',
      user_api_keys =
        [(u ''alice'', PDict [(u ''gemini'', PStr (u ''secret'')), (u ''openai'', PStr []),
                              (u ''claude'', PStr [])])],
      api_usage = initial_api_usage (u ''2026-01-02''),
      current_call_token_info = None, outbound_calls = []\<rparr>"

text \<open>A session whose \<open>user_api_keys\<close> holds a key under \<open>openai\<close> itself.\<close>

definition session_with_openai_key :: session_state where
  "session_with_openai_key =
     \<lparr>selected_model_provider = u ''OpenAI'',
      user_api_keys = [(u ''openai'', PStr (u ''sk-test''))],
      api_usage = initial_api_usage (u ''2026-01-02''),
      current_call_token_info = None, outbound_calls = []\<rparr>"

subsection \<open>Missing credentials\<close>

lemma provider_names:
  "u ''Gemini'' \<noteq> u ''OpenAI''" "u ''Gemini'' \<noteq> u ''Claude''"
  "u ''OpenAI'' \<noteq> u ''Claude''" "u ''OpenAI'' \<noteq> u ''Gemini''"
  "u ''Claude'' \<noteq> u ''Gemini''" "u ''Claude'' \<noteq> u ''OpenAI''"
  by (simp_all add: u_def)

lemma names_in_messages:
  "py_in (u ''Gemini'') gemini_key_missing"
  "py_in (u ''OpenAI'') openai_key_missing"
  "py_in (u ''Claude'') claude_key_missing"
  by code_simp+

text \<open>
  The guard of the gateway, for each of the three providers: when the value stored in
  \<open>user_api_keys\<close> under the provider id itself is absent or false, the call returns the
  missing-key message of that provider with zero token counts, and the session it leaves
  is the session it found: no request was handed to a provider, and the ledger with its
  counters and history is as before.
\<close>

lemma gateway_guard_returns_early:
  "(selected_model_provider st = u ''Gemini''
      \<and> \<not> truthy_opt (map_of (user_api_keys st) (u ''gemini''))
    \<longrightarrow> call_generative_api env prompt st =
          (\<lparr>result_text = gemini_key_missing, result_prompt_tokens = 0,
            result_response_tokens = 0\<rparr>, st))
   \<and> (selected_model_provider st = u ''OpenAI''
      \<and> \<not> truthy_opt (map_of (user_api_keys st) (u ''openai''))
    \<longrightarrow> call_generative_api env prompt st =
          (\<lparr>result_text = openai_key_missing, result_prompt_tokens = 0,
            result_response_tokens = 0\<rparr>, st))
   \<and> (selected_model_provider st = u ''Claude''
      \<and> \<not> truthy_opt (map_of (user_api_keys st) (u ''claude''))
    \<longrightarrow> call_generative_api env prompt st =
          (\<lparr>result_text = claude_key_missing, result_prompt_tokens = 0,
            result_response_tokens = 0\<rparr>, st))
   \<and> py_in (u ''Gemini'') gemini_key_missing
   \<and> py_in (u ''OpenAI'') openai_key_missing
   \<and> py_in (u ''Claude'') claude_key_missing"
  by (simp add: call_generative_api_def Let_def early_return_def provider_names
      names_in_messages)

text \<open>The guard at the fresh session, where nothing is stored.\<close>

lemma gateway_guard_at_fresh_session:
  "selected_model_provider fresh_session = u ''Gemini''
   \<and> \<not> truthy_opt (map_of (user_api_keys fresh_session) (u ''gemini''))
   \<and> call_generative_api sample_environment (u ''Write a story'') fresh_session =
       (\<lparr>result_text = gemini_key_missing, result_prompt_tokens = 0,
         result_response_tokens = 0\<rparr>, fresh_session)
   \<and> outbound_calls (snd (call_generative_api sample_environment (u ''Write a story'')
         fresh_session)) = []
   \<and> api_usage (snd (call_generative_api sample_environment (u ''Write a story'')
         fresh_session)) = initial_api_usage (u ''2026-01-02'')"
proof -
  have sel: "selected_model_provider fresh_session = u ''Gemini''"
    by (simp add: fresh_session_def)
  have key: "\<not> truthy_opt (map_of (user_api_keys fresh_session) (u ''gemini''))"
    by (simp add: fresh_session_def)
  from gateway_guard_returns_early [of fresh_session sample_environment "u ''Write a story''"]
    sel key
  have call: "call_generative_api sample_environment (u ''Write a story'') fresh_session =
       (\<lparr>result_text = gemini_key_missing, result_prompt_tokens = 0,
         result_response_tokens = 0\<rparr>, fresh_session)"
    by blast
  show ?thesis
    using sel key call by (simp add: fresh_session_def)
qed



subsection \<open>The last-call summary\<close>

text \<open>
  The gateway hands a request to a provider exactly when the selected provider is one of
  the three and the key it looks up for that provider is true.
\<close>

definition reaches_provider :: "session_state \<Rightarrow> bool" where
  "reaches_provider st =
     (selected_model_provider st = u ''Gemini''
        \<and> truthy_opt (map_of (user_api_keys st) (u ''gemini''))
      \<or> selected_model_provider st = u ''OpenAI''
        \<and> truthy_opt (map_of (user_api_keys st) (u ''openai''))
      \<or> selected_model_provider st = u ''Claude''
        \<and> truthy_opt (map_of (user_api_keys st) (u ''claude'')))"

text \<open>The request it hands over.\<close>

definition request_of :: "ustr \<Rightarrow> session_state \<Rightarrow> outbound_call" where
  "request_of prompt st =
     \<lparr>sent_provider = selected_model_provider st,
      sent_model = get_model_name (selected_model_provider st),
      sent_api_key =
        map_of (user_api_keys st)
          (if selected_model_provider st = u ''Gemini'' then u ''gemini''
           else if selected_model_provider st = u ''OpenAI'' then u ''openai''
           else u ''claude''),
      sent_prompt = prompt\<rparr>"

text \<open>
  The summary of an invocation that reached the provider: the model name with zero counts
  and the error string when the provider raised; the model name with the token counts
  otherwise (estimated for Gemini, reported by the reply for the other two).
\<close>

definition summary_of :: "environment \<Rightarrow> ustr \<Rightarrow> session_state \<Rightarrow> token_info" where
  "summary_of env prompt st =
     (case provider_answer env (request_of prompt st) of
        Inl e \<Rightarrow>
          \<lparr>info_model = get_model_name (selected_model_provider st), info_prompt_tokens = 0,
           info_response_tokens = 0, info_total_tokens = 0, info_error = Some e\<rparr>
      | Inr response \<Rightarrow>
          (if selected_model_provider st = u ''Gemini''
           then \<lparr>info_model = get_model_name (selected_model_provider st),
                 info_prompt_tokens = count_tokens (word_char env) prompt,
                 info_response_tokens = count_tokens (word_char env) (reply_text response),
                 info_total_tokens = count_tokens (word_char env) prompt
                   + count_tokens (word_char env) (reply_text response),
                 info_error = None\<rparr>
           else \<lparr>info_model = get_model_name (selected_model_provider st),
                 info_prompt_tokens = reply_prompt_tokens response,
                 info_response_tokens = reply_response_tokens response,
                 info_total_tokens =
                   reply_prompt_tokens response + reply_response_tokens response,
                 info_error = None\<rparr>))"

text \<open>
  C5 as the claim states it fails: with the key of \<open>alice\<close> stored as the sidebar stores
  it, the gateway finds no key under \<open>gemini\<close>, returns the missing-key message, and the
  summary slot is still empty afterwards; no summary of this invocation was written.
\<close>

theorem missing_credential_leaves_summary:
  "result_text (fst (call_generative_api sample_environment (u ''Write a story'')
       session_of_alice)) = gemini_key_missing
   \<and> current_call_token_info session_of_alice = None
   \<and> current_call_token_info (snd (call_generative_api sample_environment
         (u ''Write a story'') session_of_alice)) = None"
  by (simp add: call_generative_api_def Let_def early_return_def session_of_alice_def u_def)

text \<open>
  C5, amended. An invocation that reaches the provider overwrites the summary slot, on
  success and on a provider error alike, with the summary of that invocation. An
  invocation that ends in a missing-key (or unknown-provider) message leaves the slot as
  it was.
\<close>

theorem summary_overwritten_iff_provider_reached:
  "current_call_token_info (snd (call_generative_api env prompt st)) =
     (if reaches_provider st then Some (summary_of env prompt st)
      else current_call_token_info st)"
  by (auto simp add: call_generative_api_def Let_def early_return_def provider_names
      reaches_provider_def summary_of_def request_of_def send_def on_success_def
      on_exception_def split: sum.splits prod.splits)

text \<open>The theorem at a session that reaches OpenAI.\<close>

theorem summary_overwritten_witness:
  "reaches_provider session_with_openai_key
   \<and> current_call_token_info (snd (call_generative_api sample_environment
         (u ''Write a story'') session_with_openai_key))
       = Some \<lparr>info_model = u ''gpt-4o-mini'', info_prompt_tokens = 12,
                info_response_tokens = 5, info_total_tokens = 17, info_error = None\<rparr>"
proof -
  have r: "reaches_provider session_with_openai_key"
    by (simp add: reaches_provider_def session_with_openai_key_def u_def)
  have s: "summary_of sample_environment (u ''Write a story'') session_with_openai_key
      = \<lparr>info_model = u ''gpt-4o-mini'', info_prompt_tokens = 12,
         info_response_tokens = 5, info_total_tokens = 17, info_error = None\<rparr>"
    by (simp add: summary_of_def session_with_openai_key_def sample_environment_def
        provider_names get_model_name_def)
  show ?thesis
    using r s summary_overwritten_iff_provider_reached
      [of sample_environment "u ''Write a story''" session_with_openai_key]
    by simp
qed

section \<open>PromptBuilder: \<open>generate_ai_content\<close>\<close>

text \<open>The placeholder of a missing field (lines 249-253).\<close>

definition not_set :: ustr where
  "not_set = [0x672A, 0x8A2D, 0x5B9A]"

text \<open>
  \<open>{v}\<close> inside an f-string is \<open>str(v)\<close>: a string as it is. How Python prints any other
  object is the parameter \<open>str_of\<close>.
\<close>

definition fmt :: "(pyval \<Rightarrow> ustr) \<Rightarrow> pyval \<Rightarrow> ustr" where
  "fmt str_of v = (case v of PStr s \<Rightarrow> s | _ \<Rightarrow> str_of v)"

text \<open>\<open>d.get(k, default)\<close>.\<close>

definition dict_get :: "pydict \<Rightarrow> ustr \<Rightarrow> pyval \<Rightarrow> pyval" where
  "dict_get d k dflt = (case map_of d k of None \<Rightarrow> dflt | Some v \<Rightarrow> v)"

text \<open>
  \<open>additional_params.get(k, default) if additional_params else default\<close>:
  \<open>additional_params\<close> is \<open>None\<close> or a dictionary, and an empty dictionary is false.
\<close>

definition param :: "pydict option \<Rightarrow> ustr \<Rightarrow> ustr \<Rightarrow> pyval" where
  "param additional_params k dflt =
     (case additional_params of
        None \<Rightarrow> PStr dflt
      | Some d \<Rightarrow> (if d \<noteq> [] then dict_get d k (PStr dflt) else PStr dflt))"

text \<open>An exception ends the evaluation; otherwise the value goes on.\<close>

definition and_then :: "py_error + 'a \<Rightarrow> ('a \<Rightarrow> py_error + 'b) \<Rightarrow> py_error + 'b" where
  "and_then r f = (case r of Inl e \<Rightarrow> Inl e | Inr v \<Rightarrow> f v)"

text \<open>
  \<open>project.get(k, default)\<close> where \<open>project\<close> is not a parameter or a local variable of
  \<open>generate_ai_content\<close>: Python looks the name up among the globals of the module.
  \<open>project_global\<close> is that binding, \<open>None\<close> when the module has none, which raises
  \<open>NameError\<close>. An object other than a dictionary has no \<open>get\<close>.
\<close>

definition global_get :: "pyval option \<Rightarrow> ustr \<Rightarrow> pyval \<Rightarrow> py_error + pyval" where
  "global_get project_global k dflt =
     (case project_global of
        None \<Rightarrow> Inl (NameError (u ''project''))
      | Some (PDict d) \<Rightarrow> Inr (dict_get d k dflt)
      | Some _ \<Rightarrow> Inl AttributeError)"

text \<open>
  \<open>v[:n]\<close>: a prefix of a string or of a list. A dictionary and the scalars raise
  (for a dictionary \<open>TypeError\<close> up to Python 3.11, \<open>KeyError\<close> since; \<open>TypeError\<close>
  here).
\<close>

definition slice_to :: "nat \<Rightarrow> pyval \<Rightarrow> py_error + pyval" where
  "slice_to n v =
     (case v of
        PStr s \<Rightarrow> Inr (PStr (take n s))
      | PList xs \<Rightarrow> Inr (PList (take n xs))
      | _ \<Rightarrow> Inl TypeError)"

text \<open>
  \<open>base_info\<close> (lines 247-254). The genre and the target audience are read from the
  argument \<open>project_data\<close>; the theme, the synopsis and the world setting from the global
  \<open>project\<close>.
\<close>

definition base_info :: "(pyval \<Rightarrow> ustr) \<Rightarrow> pyval option \<Rightarrow> pydict \<Rightarrow> py_error + ustr" where
  "base_info str_of project_global project_data =
     (let genre = dict_get project_data (u ''genre'') (PStr not_set);
          target_audience = dict_get project_data (u ''target_audience'') (PStr not_set)
      in and_then (global_get project_global (u ''theme'') (PStr not_set)) (\<lambda>theme.
         and_then (global_get project_global (u ''synopsis'') (PStr not_set)) (\<lambda>synopsis.
         and_then (and_then (global_get project_global (u ''world_setting'') (PStr not_set))
                     (slice_to 500)) (\<lambda>world_setting.
         Inr ([0xA, 0x4F5C, 0x54C1, 0x57FA, 0x672C, 0x60C5, 0x5831, 0x3A, 0xA, 0x2D,
                   0x20, 0x30B8, 0x30E3, 0x30F3, 0x30EB, 0x3A, 0x20]
                @ fmt str_of genre
                @ [0xA, 0x2D, 0x20, 0x30BF, 0x30FC, 0x30B2, 0x30C3, 0x30C8, 0x8AAD, 0x8005,
                   0x3A, 0x20]
                @ fmt str_of target_audience
                @ [0xA, 0x2D, 0x20, 0x30C6, 0x30FC, 0x30DE, 0x3A, 0x20]
                @ fmt str_of theme
                @ [0xA, 0x2D, 0x20, 0x3042, 0x3089, 0x3059, 0x3058, 0x3A, 0x20]
                @ fmt str_of synopsis
                @ [0xA, 0x2D, 0x20, 0x4E16, 0x754C, 0x89B3, 0x3A, 0x20]
                @ fmt str_of world_setting
                @ [0xA])))))"

text \<open>The template of \<open>content_type == "synopsis"\<close> (lines 257-268).\<close>

definition synopsis_prompt :: "(pyval \<Rightarrow> ustr) \<Rightarrow> ustr \<Rightarrow> pydict option \<Rightarrow> ustr" where
  "synopsis_prompt str_of base additional_params =
     ([0xA, 0x9B45, 0x529B, 0x7684, 0x306A, 0x30E9, 0x30A4, 0x30C8, 0x30CE, 0x30D9,
          0x30EB, 0x306E, 0x3042, 0x3089, 0x3059, 0x3058, 0x3092, 0x4F5C, 0x6210, 0x3057,
          0x3066, 0x304F, 0x3060, 0x3055, 0x3044, 0x3002, 0xA, 0xA]
       @ base
       @ [0xA, 0x8FFD, 0x52A0, 0x8A2D, 0x5B9A, 0x3A, 0x20]
       @ fmt str_of (param additional_params (u ''custom_elements'') [])
       @ [0xA, 0xA, 0x8981, 0x6C42, 0x3A, 0xA]
       @ u ''1. 200-400''
       @ [0x6587, 0x5B57, 0x306E, 0x7C21, 0x6F54, 0x306A, 0x3042, 0x3089, 0x3059, 0x3058,
          0xA, 0x32, 0x2E, 0x20, 0x8AAD, 0x8005, 0x306E, 0x8208, 0x5473, 0x3092,
          0x5F15, 0x304F, 0x5185, 0x5BB9, 0xA, 0x33, 0x2E, 0x20, 0x7D9A, 0x304D,
          0x304C, 0x6C17, 0x306B, 0x306A, 0x308B, 0x69CB, 0x6210, 0xA, 0x34, 0x2E,
          0x20, 0x5B8C, 0x6210, 0x5EA6, 0x306E, 0x9AD8, 0x3044, 0x3001, 0x9B45, 0x529B,
          0x7684, 0x306A, 0x54C1, 0x8CEA, 0x3067, 0x4F5C, 0x6210, 0x3057, 0x3066, 0x304F,
          0x3060, 0x3055, 0x3044, 0x3002, 0xA])"

text \<open>The template of \<open>content_type == "character"\<close> (lines 270-288).\<close>

definition character_prompt :: "(pyval \<Rightarrow> ustr) \<Rightarrow> ustr \<Rightarrow> pydict option \<Rightarrow> ustr" where
  "character_prompt str_of base additional_params =
     ([0xA, 0x9B45, 0x529B, 0x7684, 0x306A, 0x30E9, 0x30A4, 0x30C8, 0x30CE, 0x30D9,
          0x30EB, 0x306E, 0x30AD, 0x30E3, 0x30E9, 0x30AF, 0x30BF, 0x30FC, 0x3092, 0x4F5C,
          0x6210, 0x3057, 0x3066, 0x304F, 0x3060, 0x3055, 0x3044, 0x3002, 0xA, 0xA]
       @ base
       @ [0xA, 0x30AD, 0x30E3, 0x30E9, 0x30AF, 0x30BF, 0x30FC, 0x8981, 0x6C42, 0x3A,
          0xA, 0x2D, 0x20, 0x540D, 0x524D, 0x3A, 0x20]
       @ fmt str_of (param additional_params (u ''char_name'') [])
       @ [0xA, 0x2D, 0x20, 0x5F79, 0x5272, 0x3A, 0x20]
       @ fmt str_of (param additional_params (u ''char_role'') [])
       @ [0xA, 0x2D, 0x20, 0x8FFD, 0x52A0, 0x8981, 0x6C42, 0x3A, 0x20]
       @ fmt str_of (param additional_params (u ''char_details'') [])
       @ [0xA, 0xA, 0x4F5C, 0x6210, 0x9805, 0x76EE, 0x3A, 0xA, 0x31, 0x2E,
          0x20, 0x8A73, 0x7D30, 0x306A, 0x6027, 0x683C, 0x8A2D, 0x5B9A, 0xA, 0x32,
          0x2E, 0x20, 0x80CC, 0x666F, 0x30FB, 0x904E, 0x53BB, 0xA, 0x33, 0x2E,
          0x20, 0x76EE, 0x6A19, 0x30FB, 0x52D5, 0x6A5F, 0xA, 0x34, 0x2E, 0x20,
          0x5916, 0x898B, 0x30FB, 0x7279, 0x5FB4, 0xA, 0x35, 0x2E, 0x20, 0x53E3,
          0x8ABF, 0x30FB, 0x8A71, 0x3057, 0x65B9, 0xA, 0x36, 0x2E, 0x20, 0x4ED6,
          0x30AD, 0x30E3, 0x30E9, 0x3068, 0x306E, 0x95A2, 0x4FC2, 0x6027, 0xA, 0xA,
          0x8AAD, 0x8005, 0x306B, 0x611B, 0x3055, 0x308C, 0x308B, 0x9B45, 0x529B, 0x7684,
          0x306A, 0x30AD, 0x30E3, 0x30E9, 0x30AF, 0x30BF, 0x30FC, 0x3092, 0x8A2D, 0x8A08,
          0x3057, 0x3066, 0x304F, 0x3060, 0x3055, 0x3044, 0x3002, 0xA])"

text \<open>The template of \<open>content_type == "world_setting"\<close> (lines 290-306).\<close>

definition world_setting_prompt :: "(pyval \<Rightarrow> ustr) \<Rightarrow> ustr \<Rightarrow> pydict option \<Rightarrow> ustr" where
  "world_setting_prompt str_of base additional_params =
     ([0xA, 0x72EC, 0x5275, 0x7684, 0x3067, 0x9B45, 0x529B, 0x7684, 0x306A, 0x4E16,
          0x754C, 0x89B3, 0x3092, 0x69CB, 0x7BC9, 0x3057, 0x3066, 0x304F, 0x3060, 0x3055,
          0x3044, 0x3002, 0xA, 0xA]
       @ base
       @ [0xA, 0x4E16, 0x754C, 0x89B3, 0x8981, 0x6C42, 0x3A, 0x20]
       @ fmt str_of (param additional_params (u ''world_elements'') [])
       @ [0xA, 0xA, 0x69CB, 0x7BC9, 0x9805, 0x76EE, 0x3A, 0xA, 0x31, 0x2E,
          0x20, 0x4E16, 0x754C, 0x306E, 0x57FA, 0x672C, 0x30EB, 0x30FC, 0x30EB, 0x30FB,
          0x6CD5, 0x5247, 0xA, 0x32, 0x2E, 0x20, 0x6B74, 0x53F2, 0x30FB, 0x80CC,
          0x666F, 0xA, 0x33, 0x2E, 0x20, 0x653F, 0x6CBB, 0x30FB, 0x793E, 0x4F1A,
          0x30B7, 0x30B9, 0x30C6, 0x30E0, 0xA, 0x34, 0x2E, 0x20, 0x9B54, 0x6CD5,
          0x30FB, 0x8D85, 0x80FD, 0x529B, 0x30B7, 0x30B9, 0x30C6, 0x30E0, 0xFF08, 0x8A72,
          0x5F53, 0x3059, 0x308B, 0x5834, 0x5408, 0xFF09, 0xA, 0x35, 0x2E, 0x20,
          0x5730, 0x7406, 0x30FB, 0x74B0, 0x5883, 0xA, 0x36, 0x2E, 0x20, 0x6587,
          0x5316, 0x30FB, 0x98A8, 0x7FD2, 0xA, 0x37, 0x2E, 0x20, 0x6280, 0x8853,
          0x30EC, 0x30D9, 0x30EB, 0xA, 0xA, 0x65E2, 0x5B58, 0x4F5C, 0x54C1, 0x3068,
          0x306E, 0x5DEE, 0x5225, 0x5316, 0x3092, 0x610F, 0x8B58, 0x3057, 0x305F, 0x72EC,
          0x5275, 0x7684, 0x306A, 0x4E16, 0x754C, 0x89B3, 0x3092, 0x4F5C, 0x6210, 0x3057,
          0x3066, 0x304F, 0x3060, 0x3055, 0x3044, 0x3002, 0xA])"

text \<open>\<open>sep.join(xs)\<close>.\<close>

fun join :: "ustr \<Rightarrow> ustr list \<Rightarrow> ustr" where
  "join sep [] = []"
| "join sep [x] = x"
| "join sep (x # y # ys) = x @ sep @ join sep (y # ys)"

text \<open>
  \<open>char_info\<close> (lines 308-311): the names of the first five characters, when the project
  has any. A true value that is not a dictionary has no \<open>keys\<close>.
\<close>

definition char_info :: "pydict \<Rightarrow> py_error + ustr" where
  "char_info project_data =
     (if truthy_opt (map_of project_data (u ''characters''))
      then (case map_of project_data (u ''characters'') of
              Some (PDict characters) \<Rightarrow>
                (let char_list_display = take 5 (map fst characters)
                 in Inr ([0xA, 0x4E3B, 0x8981, 0x30AD, 0x30E3, 0x30E9, 0x30AF, 0x30BF, 0x30FC, 0xFF08,
             0x629C, 0x7C8B, 0xFF09, 0x3A, 0xA]
                         @ join (u '', '') char_list_display))
            | _ \<Rightarrow> Inl AttributeError)
      else Inr [])"

text \<open>The template of \<open>content_type == "chapter"\<close> (lines 313-331).\<close>

definition chapter_prompt ::
  "(pyval \<Rightarrow> ustr) \<Rightarrow> ustr \<Rightarrow> ustr \<Rightarrow> pydict option \<Rightarrow> ustr" where
  "chapter_prompt str_of base chars additional_params =
     ([0xA, 0x8AAD, 0x8005, 0x3092, 0x5F15, 0x304D, 0x8FBC, 0x3080, 0x9B45, 0x529B,
          0x7684, 0x306A, 0x7AE0, 0x3092, 0x57F7, 0x7B46, 0x3057, 0x3066, 0x304F, 0x3060,
          0x3055, 0x3044, 0x3002, 0xA, 0xA]
       @ base
       @ chars
       @ [0xA, 0x7AE0, 0x306E, 0x8A2D, 0x5B9A, 0x3A, 0xA, 0x2D, 0x20, 0x30C1,
          0x30E3, 0x30D7, 0x30BF, 0x30FC, 0x540D, 0x2F, 0x756A, 0x53F7, 0x3A, 0x20]
       @ fmt str_of (param additional_params (u ''chapter_name'') ([0x7B2C, 0x58, 0x7AE0]))
       @ [0xA, 0x2D, 0x20, 0x30D7, 0x30ED, 0x30C3, 0x30C8, 0x6982, 0x8981, 0x3A,
          0x20]
       @ fmt str_of (param additional_params (u ''chapter_plot'') ([0x6307, 0x5B9A, 0x306A, 0x3057]))
       @ [0xA, 0x2D, 0x20, 0x6587, 0x5B57, 0x6570, 0x76EE, 0x6A19, 0x3A, 0x20]
       @ fmt str_of (param additional_params (u ''target_length'') (u ''3000-5000''))
       @ [0x6587, 0x5B57, 0xA, 0x2D, 0x20, 0x6587, 0x4F53, 0x3A, 0x20]
       @ fmt str_of (param additional_params (u ''writing_style'') ([0x4E09, 0x4EBA, 0x79F0]))
       @ [0xA, 0xA, 0x57F7, 0x7B46, 0x8981, 0x6C42, 0x3A, 0xA, 0x31, 0x2E,
          0x20, 0x9B45, 0x529B, 0x7684, 0x306A, 0x5C0E, 0x5165, 0xA, 0x32, 0x2E,
          0x20, 0x30AD, 0x30E3, 0x30E9, 0x30AF, 0x30BF, 0x30FC, 0x306E, 0x9B45, 0x529B,
          0x3092, 0x6700, 0x5927, 0x5316, 0xA, 0x33, 0x2E, 0x20, 0x8AAD, 0x8005,
          0x3092, 0x98FD, 0x304D, 0x3055, 0x305B, 0x306A, 0x3044, 0x5C55, 0x958B, 0xA,
          0x34, 0x2E, 0x20, 0x6B21, 0x7AE0, 0x3078, 0x306E, 0x5F15, 0x304D, 0xA,
          0x35, 0x2E, 0x20, 0x5B8C, 0x6210, 0x5EA6, 0x306E, 0x9AD8, 0x3044, 0x6587,
          0x7AE0, 0x529B, 0xA, 0xA, 0x591A, 0x304F, 0x306E, 0x8AAD, 0x8005, 0x306B,
          0x697D, 0x3057, 0x3093, 0x3067, 0x3082, 0x3089, 0x3048, 0x308B, 0x54C1, 0x8CEA,
          0x3067, 0x57F7, 0x7B46, 0x3057, 0x3066, 0x304F, 0x3060, 0x3055, 0x3044, 0x3002,
          0xA])"

text \<open>The template of \<open>content_type == "full_story"\<close> (lines 333-350).\<close>

definition full_story_prompt :: "(pyval \<Rightarrow> ustr) \<Rightarrow> ustr \<Rightarrow> pydict option \<Rightarrow> ustr" where
  "full_story_prompt str_of base additional_params =
     ([0xA, 0x5B8C, 0x5168, 0x306A, 0x30E9, 0x30A4, 0x30C8, 0x30CE, 0x30D9, 0x30EB,
          0x4F5C, 0x54C1, 0x3092, 0x57F7, 0x7B46, 0x3057, 0x3066, 0x304F, 0x3060, 0x3055,
          0x3044, 0x3002, 0xA, 0xA]
       @ base
       @ [0xA, 0x57F7, 0x7B46, 0x8981, 0x6C42, 0x3A, 0xA, 0x2D, 0x20, 0x6587,
          0x5B57, 0x6570, 0x3A, 0x20]
       @ fmt str_of (param additional_params (u ''target_length'') (u ''10000-15000''))
       @ [0x6587, 0x5B57, 0xA, 0x2D, 0x20, 0x7AE0, 0x6570, 0x3A, 0x20]
       @ fmt str_of (param additional_params (u ''chapter_count'') ([0x33, 0x2D, 0x35]))
       @ [0x7AE0, 0x69CB, 0x6210, 0xA, 0x2D, 0x20, 0x6587, 0x4F53, 0x3A, 0x20]
       @ fmt str_of (param additional_params (u ''writing_style'') ([0x4E09, 0x4EBA, 0x79F0]))
       @ [0xA, 0xA, 0x69CB, 0x6210, 0x3A, 0xA, 0x31, 0x2E, 0x20, 0x9B45,
          0x529B, 0x7684, 0x306A, 0x30D7, 0x30ED, 0x30ED, 0x30FC, 0x30B0, 0xA, 0x32,
          0x2E, 0x20, 0x30AD, 0x30E3, 0x30E9, 0x30AF, 0x30BF, 0x30FC, 0x7D39, 0x4ECB,
          0x3068, 0x4E16, 0x754C, 0x89B3, 0x63D0, 0x793A, 0xA, 0x33, 0x2E, 0x20,
          0x4E8B, 0x4EF6, 0x30FB, 0x554F, 0x984C, 0x306E, 0x767A, 0x751F, 0xA, 0x34,
          0x2E, 0x20, 0x5C55, 0x958B, 0x30FB, 0x30AF, 0x30E9, 0x30A4, 0x30DE, 0x30C3,
          0x30AF, 0x30B9, 0xA, 0x35, 0x2E, 0x20, 0x89E3, 0x6C7A, 0x30FB, 0x30A8,
          0x30D4, 0x30ED, 0x30FC, 0x30B0, 0xA, 0xA, 0x7D20, 0x6674, 0x3089, 0x3057,
          0x3044, 0x54C1, 0x8CEA, 0x3067, 0x4F5C, 0x6210, 0x3057, 0x3066, 0x304F, 0x3060,
          0x3055, 0x3044, 0x3002, 0x5404, 0x7AE0, 0x306E, 0x7D42, 0x308F, 0x308A, 0x306B,
          0x3010, 0x7B2C, 0x25CB, 0x7AE0, 0x20, 0x7D42, 0x4E86, 0x3011, 0x3068, 0x660E,
          0x8A18, 0x3057, 0x3066, 0x304F, 0x3060, 0x3055, 0x3044, 0x3002, 0xA])"

text \<open>
  Lines 247-350 of \<open>generate_ai_content\<close>: the prompt handed to the gateway, or the
  exception raised on the way. An unknown content kind leaves the prompt empty.
\<close>

definition build_prompt ::
  "(pyval \<Rightarrow> ustr) \<Rightarrow> pyval option \<Rightarrow> ustr \<Rightarrow> pydict \<Rightarrow> pydict option \<Rightarrow> py_error + ustr" where
  "build_prompt str_of project_global content_type project_data additional_params =
     and_then (base_info str_of project_global project_data) (\<lambda>base.
       if content_type = u ''synopsis''
       then Inr (synopsis_prompt str_of base additional_params)
       else if content_type = u ''character''
       then Inr (character_prompt str_of base additional_params)
       else if content_type = u ''world_setting''
       then Inr (world_setting_prompt str_of base additional_params)
       else if content_type = u ''chapter''
       then and_then (char_info project_data) (\<lambda>chars.
              Inr (chapter_prompt str_of base chars additional_params))
       else if content_type = u ''full_story''
       then Inr (full_story_prompt str_of base additional_params)
       else Inr [])"

text \<open>
  \<open>generate_ai_content\<close> (lines 245-353): the text of the gateway's answer to the prompt.
  An exception raised while the prompt is built leaves the function before the gateway
  is called.
\<close>

definition generate_ai_content ::
  "environment \<Rightarrow> (pyval \<Rightarrow> ustr) \<Rightarrow> pyval option \<Rightarrow> ustr \<Rightarrow> pydict \<Rightarrow> pydict option
     \<Rightarrow> session_state \<Rightarrow> (py_error + ustr) \<times> session_state" where
  "generate_ai_content env str_of project_global content_type project_data additional_params st =
     (case build_prompt str_of project_global content_type project_data additional_params of
        Inl e \<Rightarrow> (Inl e, st)
      | Inr prompt \<Rightarrow>
          (let (api_response, st) = call_generative_api env prompt st
           in (Inr (result_text api_response), st)))"

subsection \<open>Where the prompt takes its fields from\<close>

text \<open>
  A project snapshot, and the dictionary of another project. The module of \<open>app.py\<close>
  binds no global \<open>project\<close> (the name is assigned only inside \<open>glossary_sidebar_view\<close>
  and \<open>main_app_view\<close>, as a local variable), so its \<open>project_global\<close> is \<open>None\<close>.
\<close>

definition snapshot :: pydict where
  "snapshot =
     [(u ''genre'', PStr (u ''fantasy'')),
      (u ''target_audience'', PStr (u ''teens'')),
      (u ''theme'', PStr (u ''courage'')),
      (u ''synopsis'', PStr (u ''A hero rises'')),
      (u ''world_setting'', PStr (u ''A floating city''))]"

definition other_project :: pyval where
  "other_project =
     PDict [(u ''genre'', PStr (u ''horror'')),
            (u ''theme'', PStr (u ''revenge'')),
            (u ''synopsis'', PStr (u ''A ghost returns''))]"

lemma build_prompt_unbound:
  "build_prompt str_of None content_type project_data additional_params
     = Inl (NameError (u ''project''))"
  by (simp add: build_prompt_def base_info_def and_then_def global_get_def Let_def)

text \<open>
  C1. With the module's globals as they are (no \<open>project\<close>), no prompt is produced for
  any content kind, snapshot and parameters: evaluating \<open>base_info\<close> raises \<open>NameError\<close>
  and the gateway is never called. Were a global \<open>project\<close> bound to another project,
  the genre would come from the snapshot, while the theme would come from that global
  and the world setting, missing there, would be the placeholder: the snapshot's theme
  and world setting do not reach the prompt.
\<close>

theorem prompt_fields_read_from_global_project:
  "build_prompt str_of None content_type project_data additional_params
     = Inl (NameError (u ''project''))
   \<and> generate_ai_content env str_of None content_type project_data additional_params st
     = (Inl (NameError (u ''project'')), st)
   \<and> (\<exists>b. base_info str_of (Some other_project) snapshot = Inr b
          \<and> py_in (u ''fantasy'') b
          \<and> py_in (u ''revenge'') b \<and> \<not> py_in (u ''courage'') b
          \<and> py_in not_set b \<and> \<not> py_in (u ''A floating city'') b)"
proof -
  have b: "\<exists>b. base_info str_of (Some other_project) snapshot = Inr b
          \<and> py_in (u ''fantasy'') b
          \<and> py_in (u ''revenge'') b \<and> \<not> py_in (u ''courage'') b
          \<and> py_in not_set b \<and> \<not> py_in (u ''A floating city'') b"
    by (simp add: base_info_def and_then_def global_get_def Let_def dict_get_def slice_to_def
        fmt_def snapshot_def other_project_def not_set_def u_def)
  show ?thesis
    using b by (simp add: build_prompt_unbound generate_ai_content_def)
qed

section \<open>Full-story generation (lines 1083-1102 of \<open>main_app_view\<close>)\<close>

text \<open>The literals of lines 1085, 1093 and 1094.\<close>

definition error_marker :: ustr where
  "error_marker = [0x30A8, 0x30E9, 0x30FC]"

definition full_story_label :: ustr where
  "full_story_label = [0x5168, 0x4F53, 0x751F, 0x6210, 0x7D50, 0x679C]"

definition key_needed_before :: ustr where
  "key_needed_before =
     [0x41, 0x49, 0x6A5F, 0x80FD, 0x3092, 0x5229, 0x7528, 0x3059, 0x308B, 0x306B,
        0x306F, 0x3001, 0x30B5, 0x30A4, 0x30C9, 0x30D0, 0x30FC, 0x3067]"

definition key_needed_after :: ustr where
  "key_needed_after =
     [0x306E, 0x41, 0x50, 0x49, 0x30AD, 0x30FC, 0x3092, 0x8A2D, 0x5B9A, 0x3057,
        0x3066, 0x304F, 0x3060, 0x3055, 0x3044, 0x3002]"

text \<open>What the page shows after the button: a success, an error text, or a traceback.\<close>

datatype shown =
    ShowSuccess
  | ShowError ustr
  | Uncaught py_error

text \<open>
  Lines 1093-1102, once \<open>generate_ai_content\<close> has returned \<open>full_story_content\<close>:
  \<open>project[k] = v\<close> replaces the value of a key the dictionary has and appends a key it
  does not have.
\<close>

definition store_full_story :: "pydict \<Rightarrow> ustr \<Rightarrow> ustr \<Rightarrow> ustr \<Rightarrow> ustr \<Rightarrow> shown \<times> pydict" where
  "store_full_story project full_story_content total_length chapter_count full_writing_style =
     (if \<not> startswith full_story_content error_marker
      then (let project = AList.update (u ''chapters'')
                            (PDict [(full_story_label, PStr full_story_content)]) project;
                project = AList.update (u ''full_story_length'') (PStr total_length) project;
                project = AList.update (u ''full_story_chapters'') (PStr chapter_count) project;
                project = AList.update (u ''full_story_style'') (PStr full_writing_style)
                            project
            in (ShowSuccess, project))
      else (ShowError full_story_content, project))"

text \<open>
  The button of lines 1083-1102. \<open>project\<close> is the dictionary of the active project;
  the three strings are the inputs of lines 1079-1081.
\<close>

definition full_story_button ::
  "environment \<Rightarrow> (pyval \<Rightarrow> ustr) \<Rightarrow> pyval option \<Rightarrow> ustr \<Rightarrow> ustr \<Rightarrow> ustr \<Rightarrow> ustr
     \<Rightarrow> pydict \<Rightarrow> session_state \<Rightarrow> shown \<times> pydict \<times> session_state" where
  "full_story_button env str_of project_global current_user total_length chapter_count
       full_writing_style project st =
     (case is_api_key_set current_user st of
        Inl e \<Rightarrow> (Uncaught e, project, st)
      | Inr False \<Rightarrow>
          (ShowError (key_needed_before @ selected_model_provider st @ key_needed_after),
           project, st)
      | Inr True \<Rightarrow>
          (case generate_ai_content env str_of project_global (u ''full_story'') project
                  (Some [(u ''target_length'', PStr total_length),
                         (u ''chapter_count'', PStr chapter_count),
                         (u ''writing_style'', PStr full_writing_style)]) st of
             (Inl e, st) \<Rightarrow> (Uncaught e, project, st)
           | (Inr full_story_content, st) \<Rightarrow>
               (let (message, project) =
                      store_full_story project full_story_content total_length chapter_count
                        full_writing_style
                in (message, project, st))))"

text \<open>A project that holds two chapters.\<close>

definition project_with_chapters :: pydict where
  "project_with_chapters =
     [(u ''synopsis'', PStr (u ''A hero rises'')),
      (u ''chapters'', PDict [(u ''Chapter 1'', PStr (u ''It began at dawn.'')),
                              (u ''Chapter 2'', PStr (u ''Then night fell.''))]),
      (u ''glossary'', PDict [])]"

text \<open>
  C10. When the generated text does not begin with the error marker (the test of line
  1093 for a successful generation), the project's \<open>chapters\<close> afterwards is the
  dictionary with the single entry from the full-story label to the generated text,
  whatever chapters the project held before; the success message is shown.
\<close>

theorem full_story_replaces_chapters:
  "\<not> startswith full_story_content error_marker \<Longrightarrow>
   map_of (snd (store_full_story project full_story_content total_length chapter_count
                  full_writing_style)) (u ''chapters'')
     = Some (PDict [(full_story_label, PStr full_story_content)])
   \<and> fst (store_full_story project full_story_content total_length chapter_count
            full_writing_style) = ShowSuccess"
  by (simp add: store_full_story_def Let_def AList.update_conv' u_def)

text \<open>The theorem at the project with two chapters: both are gone afterwards.\<close>

theorem full_story_replaces_chapters_witness:
  "\<not> startswith (u ''Once upon a time'') error_marker
   \<and> map_of project_with_chapters (u ''chapters'')
       = Some (PDict [(u ''Chapter 1'', PStr (u ''It began at dawn.'')),
                      (u ''Chapter 2'', PStr (u ''Then night fell.''))])
   \<and> map_of (snd (store_full_story project_with_chapters (u ''Once upon a time'')
                    (u ''10000'') (u ''3'') (u ''third person''))) (u ''chapters'')
       = Some (PDict [(full_story_label, PStr (u ''Once upon a time''))])"
proof -
  have ok: "\<not> startswith (u ''Once upon a time'') error_marker"
    by (simp add: error_marker_def u_def)
  have before: "map_of project_with_chapters (u ''chapters'')
       = Some (PDict [(u ''Chapter 1'', PStr (u ''It began at dawn.'')),
                      (u ''Chapter 2'', PStr (u ''Then night fell.''))])"
    by (simp add: project_with_chapters_def u_def)
  show ?thesis
    using ok before
      full_story_replaces_chapters [OF ok, of project_with_chapters "u ''10000''" "u ''3''"
        "u ''third person''"]
    by simp
qed

text \<open>
  The button as a whole: when it shows the success message, the project's chapters are
  the generated text alone.
\<close>

lemma full_story_button_success:
  assumes "full_story_button env str_of project_global current_user total_length
             chapter_count full_writing_style project st = (ShowSuccess, project', st')"
  shows "\<exists>full_story_content.
           map_of project' (u ''chapters'')
             = Some (PDict [(full_story_label, PStr full_story_content)])"
proof -
  from assms obtain c st1 where
    gen: "generate_ai_content env str_of project_global (u ''full_story'') project
            (Some [(u ''target_length'', PStr total_length),
                   (u ''chapter_count'', PStr chapter_count),
                   (u ''writing_style'', PStr full_writing_style)]) st = (Inr c, st1)"
    and sto: "store_full_story project c total_length chapter_count full_writing_style
            = (ShowSuccess, project')"
    by (auto simp add: full_story_button_def Let_def
        split: sum.splits bool.splits prod.splits)
  from sto have "\<not> startswith c error_marker"
    by (auto simp add: store_full_story_def split: if_splits)
  from full_story_replaces_chapters [OF this, of project total_length chapter_count
      full_writing_style] sto
  show ?thesis by auto
qed

section \<open>Import of projects (lines 723-737 of \<open>main_app_view\<close>)\<close>

text \<open>
  \<open>'glossary' not in project_data\<close> followed by \<open>project_data['glossary'] = {}\<close> (lines
  730-731), for whatever object the project name is bound to. A dictionary without the
  key gets it, appended. In a string \<open>in\<close> is the substring test and in a list the
  membership test; where they find nothing, the item assignment raises \<open>TypeError\<close>, as
  does \<open>in\<close> itself on a number, a boolean or \<open>None\<close>.
\<close>

definition fill_glossary :: "pyval \<Rightarrow> py_error + pyval" where
  "fill_glossary project_data =
     (case project_data of
        PDict d \<Rightarrow>
          (if map_of d (u ''glossary'') = None
           then Inr (PDict (d @ [(u ''glossary'', PDict [])]))
           else Inr (PDict d))
      | PStr s \<Rightarrow> (if py_in (u ''glossary'') s then Inr (PStr s) else Inl TypeError)
      | PList xs \<Rightarrow>
          (if List.member xs (PStr (u ''glossary'')) then Inr (PList xs) else Inl TypeError)
      | _ \<Rightarrow> Inl TypeError)"

text \<open>
  The loop of lines 729-731 over \<open>st.session_state.projects.items()\<close>: the projects are
  visited in order, and an exception leaves the ones not yet visited as they are.
\<close>

fun backfill_loop :: "pydict \<Rightarrow> pydict \<times> py_error option" where
  "backfill_loop [] = ([], None)"
| "backfill_loop ((project_name, project_data) # rest) =
     (case fill_glossary project_data of
        Inl e \<Rightarrow> ((project_name, project_data) # rest, Some e)
      | Inr filled \<Rightarrow>
          (case backfill_loop rest of
             (rest', failed) \<Rightarrow> ((project_name, filled) # rest', failed)))"

text \<open>The three messages of the sidebar (lines 732, 735 and 737).\<close>

datatype import_message =
    ImportDone
  | InvalidJson
  | ImportFailed py_error

text \<open>
  The import handler of lines 726-737. Two parts are not code of this repository and are
  parameters: \<open>json_load\<close>, the parser (\<open>JSONDecodeError\<close> on a malformed document), and
  \<open>update_other\<close>, what \<open>dict.update\<close> does with an argument that is not a dictionary
  (it may raise after storing some pairs). \<open>projects.update(imported_data)\<close> with a
  dictionary stores its items in order: the value of a name the mapping has is replaced
  in place, a new name is appended.
\<close>

definition import_projects ::
  "('file \<Rightarrow> py_error + pyval) \<Rightarrow> (pydict \<Rightarrow> pyval \<Rightarrow> pydict \<times> py_error option)
     \<Rightarrow> 'file \<Rightarrow> pydict \<Rightarrow> import_message \<times> pydict" where
  "import_projects json_load update_other uploaded_file projects =
     (case json_load uploaded_file of
        Inl e \<Rightarrow> (if e = JSONDecodeError then (InvalidJson, projects)
                  else (ImportFailed e, projects))
      | Inr imported_data \<Rightarrow>
          (case (case imported_data of
                   PDict items \<Rightarrow> (fold (\<lambda>(k, v). AList.update k v) items projects, None)
                 | _ \<Rightarrow> update_other projects imported_data) of
             (projects, Some e) \<Rightarrow> (ImportFailed e, projects)
           | (projects, None) \<Rightarrow>
               (case backfill_loop projects of
                  (projects, Some e) \<Rightarrow> (ImportFailed e, projects)
                | (projects, None) \<Rightarrow> (ImportDone, projects))))"

subsection \<open>Documents of the exported shape\<close>

text \<open>A project is a dictionary; it has a glossary when it has the key.\<close>

definition is_dict :: "pyval \<Rightarrow> bool" where
  "is_dict v = (case v of PDict d \<Rightarrow> True | _ \<Rightarrow> False)"

definition has_glossary :: "pyval \<Rightarrow> bool" where
  "has_glossary v = (case v of PDict d \<Rightarrow> map_of d (u ''glossary'') \<noteq> None | _ \<Rightarrow> False)"

text \<open>A project with its glossary back-filled.\<close>

definition filled :: "pyval \<Rightarrow> pyval" where
  "filled v =
     (case v of
        PDict d \<Rightarrow>
          (if map_of d (u ''glossary'') = None then PDict (d @ [(u ''glossary'', PDict [])])
           else PDict d)
      | _ \<Rightarrow> v)"

lemma filled_has_glossary: "is_dict v \<Longrightarrow> has_glossary (filled v)"
  by (cases v) (auto simp add: is_dict_def has_glossary_def filled_def)

lemma filled_id: "has_glossary v \<Longrightarrow> filled v = v"
  by (cases v) (auto simp add: has_glossary_def filled_def)

lemma fill_glossary_dict: "is_dict v \<Longrightarrow> fill_glossary v = Inr (filled v)"
  by (cases v) (auto simp add: is_dict_def fill_glossary_def filled_def)

lemma backfill_loop_dicts:
  "list_all (\<lambda>(n, v). is_dict v) ps \<Longrightarrow>
   backfill_loop ps = (map (\<lambda>(n, v). (n, filled v)) ps, None)"
  by (induction ps) (auto simp add: fill_glossary_dict)

lemma fold_update_dicts:
  "list_all (\<lambda>(n, v). is_dict v) ps \<Longrightarrow> list_all (\<lambda>(n, v). is_dict v) items \<Longrightarrow>
   list_all (\<lambda>(n, v). is_dict v) (fold (\<lambda>(k, v). AList.update k v) items ps)"
proof (induction items arbitrary: ps)
  case Nil
  then show ?case by simp
next
  case (Cons kv items)
  obtain k v where kv: "kv = (k, v)" by (cases kv)
  have upd: "\<And>qs. list_all (\<lambda>(n, v). is_dict v) qs \<Longrightarrow> is_dict v \<Longrightarrow>
                 list_all (\<lambda>(n, v). is_dict v) (AList.update k v qs)"
  proof -
    fix qs
    show "list_all (\<lambda>(n, v). is_dict v) qs \<Longrightarrow> is_dict v \<Longrightarrow>
            list_all (\<lambda>(n, v). is_dict v) (AList.update k v qs)"
      by (induction qs) auto
  qed
  from Cons.prems kv have "list_all (\<lambda>(n, v). is_dict v) (AList.update k v ps)"
    by (intro upd) auto
  with Cons.IH [of "AList.update k v ps"] Cons.prems kv show ?case by simp
qed

lemma map_of_fold_update:
  "distinct (map fst items) \<Longrightarrow>
   map_of (fold (\<lambda>(k, v). AList.update k v) items ps) = map_of ps ++ map_of items"
proof (induction items arbitrary: ps)
  case Nil
  then show ?case by simp
next
  case (Cons kv items)
  obtain k v where kv: "kv = (k, v)" by (cases kv)
  from Cons.prems kv have notin: "k \<notin> fst ` set items" and dist: "distinct (map fst items)"
    by auto
  from notin have none: "map_of items k = None"
    by (simp add: map_of_eq_None_iff)
  have "map_of (fold (\<lambda>(k, v). AList.update k v) (kv # items) ps)
          = map_of (AList.update k v ps) ++ map_of items"
    using Cons.IH [OF dist, of "AList.update k v ps"] kv by simp
  also have "\<dots> = (map_of ps)(k \<mapsto> v) ++ map_of items"
    by (simp add: AList.update_conv')
  also have "\<dots> = map_of ps ++ map_of (kv # items)"
    using none kv by (auto simp add: map_add_def fun_eq_iff split: option.splits)
  finally show ?case .
qed

lemma map_of_map_filled:
  "map_of (map (\<lambda>(n, v). (n, filled v)) ps) name = map_option filled (map_of ps name)"
  by (induction ps) auto

lemma filled_all:
  "list_all (\<lambda>(n, v). is_dict v) ps \<Longrightarrow>
   list_all (\<lambda>(n, v). has_glossary v) (map (\<lambda>(n, v). (n, filled v)) ps)"
  by (induction ps) (auto simp add: filled_has_glossary)

subsection \<open>Concrete imports\<close>

text \<open>
  A parser that returns a given value, one that rejects the document, and a
  \<open>dict.update\<close> that raises at once on an argument that is not a dictionary.
\<close>

definition parsed_as :: "pyval \<Rightarrow> unit \<Rightarrow> py_error + pyval" where
  "parsed_as v file = Inr v"

definition rejected :: "unit \<Rightarrow> py_error + pyval" where
  "rejected file = Inl JSONDecodeError"

definition update_raises :: "pydict \<Rightarrow> pyval \<Rightarrow> pydict \<times> py_error option" where
  "update_raises ps v = (ps, Some TypeError)"

text \<open>
  Two projects in the session, and a document with a new version of \<open>b\<close> that lacks a
  glossary.
\<close>

definition session_projects :: pydict where
  "session_projects =
     [(u ''a'', PDict [(u ''synopsis'', PStr (u ''first'')), (u ''glossary'', PDict [])]),
      (u ''b'', PDict [(u ''synopsis'', PStr (u ''old'')), (u ''glossary'', PDict [])])]"

definition document_items :: pydict where
  "document_items = [(u ''b'', PDict [(u ''synopsis'', PStr (u ''new''))])]"

text \<open>
  C8 as the claim states it fails: the document \<open>{"p": 5}\<close> is well-formed JSON. Its
  import into an empty mapping stores \<open>p\<close>, then the back-fill raises on the number, the
  error message is shown, and the mapping has changed and holds a project without a
  glossary. The document \<open>{"q": "my glossary"}\<close> is even imported with the success
  message, and \<open>q\<close> has no glossary map.
\<close>

theorem import_of_other_shapes:
  "import_projects (parsed_as (PDict [(u ''p'', PInt 5)])) update_raises () []
     = (ImportFailed TypeError, [(u ''p'', PInt 5)])
   \<and> \<not> has_glossary (PInt 5)
   \<and> import_projects (parsed_as (PDict [(u ''q'', PStr (u ''my glossary''))])) update_raises
       () []
     = (ImportDone, [(u ''q'', PStr (u ''my glossary''))])
   \<and> \<not> has_glossary (PStr (u ''my glossary''))"
  by (simp add: import_projects_def fill_glossary_def has_glossary_def parsed_as_def u_def)

text \<open>
  C8, amended. A document the parser rejects leaves the projects as they were and shows
  an error. A document that parses to an object whose values are all objects, imported
  into projects that are all objects, is merged with the success message: a name of the
  document is bound to the document's project, any other name to the project it had,
  each with an empty glossary added where it had none (so a project that had one is
  unchanged), and every project has a glossary afterwards.
\<close>

theorem import_merges_and_backfills:
  "(json_load uploaded_file = Inl e \<longrightarrow>
      snd (import_projects json_load update_other uploaded_file projects) = projects
      \<and> fst (import_projects json_load update_other uploaded_file projects)
          = (if e = JSONDecodeError then InvalidJson else ImportFailed e))
   \<and> (json_load uploaded_file = Inr (PDict items) \<and> distinct (map fst items)
        \<and> list_all (\<lambda>(n, v). is_dict v) items \<and> list_all (\<lambda>(n, v). is_dict v) projects
      \<longrightarrow>
      fst (import_projects json_load update_other uploaded_file projects) = ImportDone
      \<and> map_of (snd (import_projects json_load update_other uploaded_file projects)) name
          = (case map_of items name of
               Some v \<Rightarrow> Some (filled v)
             | None \<Rightarrow> map_option filled (map_of projects name))
      \<and> list_all (\<lambda>(n, v). has_glossary v)
           (snd (import_projects json_load update_other uploaded_file projects))
      \<and> (has_glossary v \<longrightarrow> filled v = v))"
proof (intro conjI impI)
  assume "json_load uploaded_file = Inl e"
  then show "snd (import_projects json_load update_other uploaded_file projects) = projects"
    and "fst (import_projects json_load update_other uploaded_file projects)
          = (if e = JSONDecodeError then InvalidJson else ImportFailed e)"
    by (simp_all add: import_projects_def)
next
  assume a: "json_load uploaded_file = Inr (PDict items) \<and> distinct (map fst items)
        \<and> list_all (\<lambda>(n, v). is_dict v) items \<and> list_all (\<lambda>(n, v). is_dict v) projects"
  let ?merged = "fold (\<lambda>(k, v). AList.update k v) items projects"
  have dicts: "list_all (\<lambda>(n, v). is_dict v) ?merged"
    using a by (intro fold_update_dicts) auto
  have imp: "import_projects json_load update_other uploaded_file projects
               = (ImportDone, map (\<lambda>(n, v). (n, filled v)) ?merged)"
    using a by (simp add: import_projects_def backfill_loop_dicts [OF dicts])
  show "fst (import_projects json_load update_other uploaded_file projects) = ImportDone"
    by (simp add: imp)
  have "map_of (map (\<lambda>(n, v). (n, filled v)) ?merged) name
          = map_option filled ((map_of projects ++ map_of items) name)"
    using a by (simp add: map_of_map_filled map_of_fold_update)
  then show "map_of (snd (import_projects json_load update_other uploaded_file projects)) name
          = (case map_of items name of
               Some v \<Rightarrow> Some (filled v)
             | None \<Rightarrow> map_option filled (map_of projects name))"
    by (simp add: imp map_add_def split: option.splits)
  have "list_all (\<lambda>(n, v). has_glossary v) (map (\<lambda>(n, v). (n, filled v)) ?merged)"
    using dicts by (rule filled_all)
  then show "list_all (\<lambda>(n, v). has_glossary v)
           (snd (import_projects json_load update_other uploaded_file projects))"
    by (simp add: imp)
next
  assume "has_glossary v"
  then show "filled v = v" by (rule filled_id)
qed

text \<open>
  The theorem at a rejected document, and at the document with the new \<open>b\<close>: \<open>b\<close> is
  the document's project with an empty glossary added, \<open>a\<close> is as it was.
\<close>

theorem import_merges_and_backfills_witness:
  "rejected () = Inl JSONDecodeError
   \<and> import_projects rejected update_raises () session_projects
       = (InvalidJson, session_projects)
   \<and> parsed_as (PDict document_items) () = Inr (PDict document_items)
   \<and> distinct (map fst document_items)
   \<and> list_all (\<lambda>(n, v). is_dict v) document_items
   \<and> list_all (\<lambda>(n, v). is_dict v) session_projects
   \<and> fst (import_projects (parsed_as (PDict document_items)) update_raises ()
            session_projects) = ImportDone
   \<and> map_of (snd (import_projects (parsed_as (PDict document_items)) update_raises ()
                    session_projects)) (u ''b'')
       = Some (PDict [(u ''synopsis'', PStr (u ''new'')), (u ''glossary'', PDict [])])
   \<and> map_of (snd (import_projects (parsed_as (PDict document_items)) update_raises ()
                    session_projects)) (u ''a'')
       = Some (PDict [(u ''synopsis'', PStr (u ''first'')), (u ''glossary'', PDict [])])
   \<and> has_glossary (PDict [(u ''glossary'', PDict [])])
   \<and> filled (PDict [(u ''glossary'', PDict [])]) = PDict [(u ''glossary'', PDict [])]"
proof -
  have r: "rejected () = Inl JSONDecodeError"
    by (simp add: rejected_def)
  have p: "parsed_as (PDict document_items) () = Inr (PDict document_items)"
    by (simp add: parsed_as_def)
  have d: "distinct (map fst document_items)"
    by (simp add: document_items_def)
  have i: "list_all (\<lambda>(n, v). is_dict v) document_items"
    by (simp add: document_items_def is_dict_def)
  have s: "list_all (\<lambda>(n, v). is_dict v) session_projects"
    by (simp add: session_projects_def is_dict_def)
  have g: "has_glossary (PDict [(u ''glossary'', PDict [])])"
    by (simp add: has_glossary_def)
  have names: "u ''a'' \<noteq> u ''b''" "u ''b'' \<noteq> u ''a''"
    "u ''synopsis'' \<noteq> u ''glossary''" "u ''glossary'' \<noteq> u ''synopsis''"
    by (simp_all add: u_def)
  note rej = import_merges_and_backfills
    [of rejected "()" JSONDecodeError update_raises session_projects "[]" "u ''a''" PNone]
  note b = import_merges_and_backfills
    [of "parsed_as (PDict document_items)" "()" JSONDecodeError update_raises session_projects
      document_items "u ''b''" "PDict [(u ''glossary'', PDict [])]"]
  note a = import_merges_and_backfills
    [of "parsed_as (PDict document_items)" "()" JSONDecodeError update_raises session_projects
      document_items "u ''a''" "PDict [(u ''glossary'', PDict [])]"]
  have rej': "import_projects rejected update_raises () session_projects
       = (InvalidJson, session_projects)"
    using rej r by (simp add: prod_eq_iff)
  have b': "map_of (snd (import_projects (parsed_as (PDict document_items)) update_raises ()
                    session_projects)) (u ''b'')
       = Some (PDict [(u ''synopsis'', PStr (u ''new'')), (u ''glossary'', PDict [])])"
    using b p d i s by (simp add: document_items_def filled_def names)
  have a': "map_of (snd (import_projects (parsed_as (PDict document_items)) update_raises ()
                    session_projects)) (u ''a'')
       = Some (PDict [(u ''synopsis'', PStr (u ''first'')), (u ''glossary'', PDict [])])"
    using a p d i s
    by (simp add: document_items_def session_projects_def filled_def names)
  have fin: "fst (import_projects (parsed_as (PDict document_items)) update_raises ()
            session_projects) = ImportDone"
    using b p d i s by simp
  have f: "filled (PDict [(u ''glossary'', PDict [])]) = PDict [(u ''glossary'', PDict [])]"
    using b p d i s g by simp
  show ?thesis
    using r rej' p d i s fin b' a' g f by simp
qed

end
